theory Spec2Isabelle
  imports Complex_Main "HOL-Library.Word" "HOL-Library.Sublist"
begin

section \<open>ITK-SNAP: the global UI model and the polygon drawing interaction mode\<close>

text \<open>
  The development embeds \<^verbatim>\<open>GUI/Model/GlobalUIModel.cxx\<close> and the event handlers of
  \<^verbatim>\<open>PolygonDrawingInteractionMode\<close>. Both are glue between the application driver
  (\<^verbatim>\<open>IRISApplication\<close>), the Qt widgets and the per-slice models. Objects the code
  reads through a pointer are records; a call into a class whose body is not part of the
  sources is written to a trace, in program order, and its effect on the callee is a
  parameter of the embedding, so every theorem holds for any behaviour of the callee.
\<close>

subsection \<open>Vectors of unsigned integers\<close>

text \<open>
  \<^verbatim>\<open>Vector3ui\<close> is a fixed vector of three \<^verbatim>\<open>unsigned int\<close>. Arithmetic with a scalar
  (\<^verbatim>\<open>v + 1u\<close>, \<^verbatim>\<open>v - 1u\<close>) works on every component and wraps around modulo \<open>2 ^ 32\<close>;
  \<^verbatim>\<open>Vector3ui(1u)\<close> fills the three components with one value.
\<close>

type_synonym uint = "32 word"

datatype Vector3ui = Vector3ui uint uint uint

fun Vector3ui_fill :: "uint \<Rightarrow> Vector3ui" where
  "Vector3ui_fill a = Vector3ui a a a"

fun Vector3ui_plus :: "Vector3ui \<Rightarrow> uint \<Rightarrow> Vector3ui" where
  "Vector3ui_plus (Vector3ui x y z) s = Vector3ui (x + s) (y + s) (z + s)"

fun Vector3ui_minus :: "Vector3ui \<Rightarrow> uint \<Rightarrow> Vector3ui" where
  "Vector3ui_minus (Vector3ui x y z) s = Vector3ui (x - s) (y - s) (z - s)"

text \<open>\<^verbatim>\<open>NumericValueRange<T>\<close>: minimum, maximum and step, written by \<^verbatim>\<open>Set\<close>.\<close>

record 'a NumericValueRange =
  Minimum :: 'a
  Maximum :: 'a
  StepSize :: 'a

definition NumericValueRange_Set ::
  "'a \<Rightarrow> 'a \<Rightarrow> 'a \<Rightarrow> 'a NumericValueRange \<Rightarrow> 'a NumericValueRange" where
  "NumericValueRange_Set lo hi step r = r\<lparr>Minimum := lo, Maximum := hi, StepSize := step\<rparr>"

subsection \<open>The application driver as the model sees it\<close>

text \<open>
  \<^verbatim>\<open>ImageWrapperBase::GetSize\<close> is declared in \<^verbatim>\<open>ImageWrapperBase.h\<close>; the wrapper is
  reduced to the one attribute the model reads.
\<close>

record ImageWrapperBase =
  Size :: Vector3ui

record GenericImageData =
  MainLoaded :: bool
  RGBLoaded :: bool
  OverlayLoaded :: bool
  Main :: ImageWrapperBase

definition IsMainLoaded :: "GenericImageData \<Rightarrow> bool" where
  "IsMainLoaded d = MainLoaded d"

definition IsRGBLoaded :: "GenericImageData \<Rightarrow> bool" where
  "IsRGBLoaded d = RGBLoaded d"

definition IsOverlayLoaded :: "GenericImageData \<Rightarrow> bool" where
  "IsOverlayLoaded d = OverlayLoaded d"

definition GetMain :: "GenericImageData \<Rightarrow> ImageWrapperBase" where
  "GetMain d = Main d"

definition GetSize :: "ImageWrapperBase \<Rightarrow> Vector3ui" where
  "GetSize w = Size w"

text \<open>
  The global state holds the region of interest of the segmentation (a value of a type
  the sources only name, \<^verbatim>\<open>SNAPSegmentationROISettings\<close>, here the type parameter) and
  the option that enables the context menu of the polygon tool.
\<close>

record 'roi GlobalState =
  SegmentationROISettings :: 'roi
  PolygonDrawingContextMenu :: bool

definition GetSegmentationROISettings :: "'roi GlobalState \<Rightarrow> 'roi" where
  "GetSegmentationROISettings g = SegmentationROISettings g"

definition GetPolygonDrawingContextMenu :: "'roi GlobalState \<Rightarrow> bool" where
  "GetPolygonDrawingContextMenu g = PolygonDrawingContextMenu g"

text \<open>
  \<^verbatim>\<open>IRISApplication\<close>, the driver. \<^verbatim>\<open>GetSystemInterface\<close> returns a pointer, kept as
  the address of the object; the other objects are read through their pointers and are
  nested records.
\<close>

type_synonym address = nat

record 'roi IRISApplication =
  SystemInterface :: address
  GlobalState :: "'roi GlobalState"
  CursorPosition :: Vector3ui
  CurrentImageData :: GenericImageData
  SnakeModeActive :: bool

definition IRISApplication_GetSystemInterface :: "'roi IRISApplication \<Rightarrow> address" where
  "IRISApplication_GetSystemInterface d = SystemInterface d"

definition IRISApplication_GetGlobalState :: "'roi IRISApplication \<Rightarrow> 'roi GlobalState" where
  "IRISApplication_GetGlobalState d = GlobalState d"

definition GetCurrentImageData :: "'roi IRISApplication \<Rightarrow> GenericImageData" where
  "GetCurrentImageData d = CurrentImageData d"

definition IsSnakeModeActive :: "'roi IRISApplication \<Rightarrow> bool" where
  "IsSnakeModeActive d = SnakeModeActive d"

definition GetCursorPosition :: "'roi IRISApplication \<Rightarrow> Vector3ui" where
  "GetCursorPosition d = CursorPosition d"

text \<open>
  Modelled from the spec: \<^verbatim>\<open>IRISApplication::SetCursorPosition\<close>, whose body is not in
  the sources. The driver stores the position it is given, and
  \<^verbatim>\<open>GetCursorPosition\<close> reads it back.
\<close>

definition IRISApplication_SetCursorPosition ::
  "Vector3ui \<Rightarrow> 'roi IRISApplication \<Rightarrow> 'roi IRISApplication" where
  "IRISApplication_SetCursorPosition v d = d\<lparr>CursorPosition := v\<rparr>"

text \<open>
  The two driver operations of the active contour mode are not in the sources either.
  What they do to the driver is a parameter.
\<close>

record 'roi driver_effects =
  InitializeSNAPImageData_effect :: "'roi \<Rightarrow> 'roi IRISApplication \<Rightarrow> 'roi IRISApplication"
  SetCurrentImageDataToSNAP_effect :: "'roi IRISApplication \<Rightarrow> 'roi IRISApplication"

subsection \<open>GlobalUIModel\<close>

datatype UIState =
    UIF_RGB_LOADED
  | UIF_BASEIMG_LOADED
  | UIF_IRIS_ACTIVE
  | UIF_MESH_DIRTY
  | UIF_MESH_ACTION_PENDING
  | UIF_ROI_VALID
  | UIF_LINKED_ZOOM
  | UIF_UNDO_POSSIBLE
  | UIF_REDO_POSSIBLE
  | UIF_UNSAVED_CHANGES
  | UIF_MESH_SAVEABLE
  | UIF_GRAY_LOADED
  | UIF_OVERLAY_LOADED
  | UIF_SNAKE_MODE

datatype ToolbarModeType = CROSSHAIRS_MODE | NAVIGATION_MODE

record SliceWindowCoordinator =
  LinkedZoom :: bool

definition GetLinkedZoom :: "SliceWindowCoordinator \<Rightarrow> bool" where
  "GetLinkedZoom c = LinkedZoom c"

text \<open>
  The members of the model that the functions below read or write: the driver, the slice
  coordinator and the toolbar mode property.
\<close>

record 'roi GlobalUIModel =
  m_Driver :: "'roi IRISApplication"
  m_SliceCoordinator :: SliceWindowCoordinator
  m_ToolbarModeModel :: ToolbarModeType

text \<open>The calls the model makes that change another object, as they appear in a trace.\<close>

datatype 'roi model_call =
    Call_SetCursorPosition Vector3ui
  | Call_InitializeSNAPImageData 'roi
  | Call_SetCurrentImageDataToSNAP
  | Call_SetToolbarMode ToolbarModeType

record 'roi world =
  Trace :: "'roi model_call list"
  Model :: "'roi GlobalUIModel"

definition CheckState :: "'roi GlobalUIModel \<Rightarrow> UIState \<Rightarrow> bool" where
  "CheckState m state =
     (case state of
        UIF_RGB_LOADED \<Rightarrow> IsRGBLoaded (GetCurrentImageData (m_Driver m))
      | UIF_BASEIMG_LOADED \<Rightarrow> IsMainLoaded (GetCurrentImageData (m_Driver m))
      | UIF_IRIS_ACTIVE \<Rightarrow> True
      | UIF_MESH_DIRTY \<Rightarrow> False
      | UIF_MESH_ACTION_PENDING \<Rightarrow> False
      | UIF_ROI_VALID \<Rightarrow> False
      | UIF_LINKED_ZOOM \<Rightarrow> GetLinkedZoom (m_SliceCoordinator m)
      | UIF_UNDO_POSSIBLE \<Rightarrow> False
      | UIF_REDO_POSSIBLE \<Rightarrow> False
      | UIF_UNSAVED_CHANGES \<Rightarrow> False
      | UIF_MESH_SAVEABLE \<Rightarrow> False
      | UIF_GRAY_LOADED \<Rightarrow> IsMainLoaded (GetCurrentImageData (m_Driver m))
      | UIF_OVERLAY_LOADED \<Rightarrow> IsOverlayLoaded (GetCurrentImageData (m_Driver m))
      | UIF_SNAKE_MODE \<Rightarrow> IsSnakeModeActive (m_Driver m))"

definition GlobalUIModel_GetSystemInterface :: "'roi GlobalUIModel \<Rightarrow> address" where
  "GlobalUIModel_GetSystemInterface m = IRISApplication_GetSystemInterface (m_Driver m)"

definition GlobalUIModel_GetGlobalState :: "'roi GlobalUIModel \<Rightarrow> 'roi GlobalState" where
  "GlobalUIModel_GetGlobalState m = IRISApplication_GetGlobalState (m_Driver m)"

text \<open>
  \<^verbatim>\<open>GetCursorPositionValueAndRange(value, range)\<close> writes through its reference
  \<^verbatim>\<open>value\<close> and, when the pointer \<^verbatim>\<open>range\<close> is not null, through \<^verbatim>\<open>range\<close>. The
  embedding takes what both hold before the call (\<open>None\<close> for a null pointer) and
  returns the result together with what they hold after it.
\<close>

definition GetCursorPositionValueAndRange ::
  "'roi GlobalUIModel \<Rightarrow> Vector3ui \<Rightarrow> Vector3ui NumericValueRange option \<Rightarrow>
     bool \<times> Vector3ui \<times> Vector3ui NumericValueRange option" where
  "GetCursorPositionValueAndRange m val rng =
     (if IsMainLoaded (GetCurrentImageData (m_Driver m)) then
        (True,
         Vector3ui_plus (GetCursorPosition (m_Driver m)) 1,
         (case rng of
            None \<Rightarrow> None
          | Some r \<Rightarrow>
              Some (NumericValueRange_Set (Vector3ui_fill 1)
                      (GetSize (GetMain (GetCurrentImageData (m_Driver m))))
                      (Vector3ui_fill 1) r)))
      else (False, val, rng))"

definition SetCursorPosition :: "Vector3ui \<Rightarrow> 'roi world \<Rightarrow> 'roi world" where
  "SetCursorPosition val w =
     (let arg = Vector3ui_minus val 1 in
      w\<lparr>Trace := Trace w @ [Call_SetCursorPosition arg],
        Model := (Model w)\<lparr>m_Driver := IRISApplication_SetCursorPosition arg (m_Driver (Model w))\<rparr>\<rparr>)"

text \<open>
  \<^verbatim>\<open>SetToolbarMode\<close> is the accessor of the toolbar mode property created in the
  constructor (\<^verbatim>\<open>m_ToolbarModeModel\<close>): it stores the mode.
\<close>

definition SetToolbarMode :: "ToolbarModeType \<Rightarrow> 'roi world \<Rightarrow> 'roi world" where
  "SetToolbarMode mode w =
     w\<lparr>Trace := Trace w @ [Call_SetToolbarMode mode],
       Model := (Model w)\<lparr>m_ToolbarModeModel := mode\<rparr>\<rparr>"

definition InitializeSNAPImageData ::
  "'roi driver_effects \<Rightarrow> 'roi \<Rightarrow> 'roi world \<Rightarrow> 'roi world" where
  "InitializeSNAPImageData env roi w =
     w\<lparr>Trace := Trace w @ [Call_InitializeSNAPImageData roi],
       Model := (Model w)\<lparr>m_Driver := InitializeSNAPImageData_effect env roi (m_Driver (Model w))\<rparr>\<rparr>"

definition SetCurrentImageDataToSNAP :: "'roi driver_effects \<Rightarrow> 'roi world \<Rightarrow> 'roi world" where
  "SetCurrentImageDataToSNAP env w =
     w\<lparr>Trace := Trace w @ [Call_SetCurrentImageDataToSNAP],
       Model := (Model w)\<lparr>m_Driver := SetCurrentImageDataToSNAP_effect env (m_Driver (Model w))\<rparr>\<rparr>"

definition EnterActiveContourMode :: "'roi driver_effects \<Rightarrow> 'roi world \<Rightarrow> 'roi world" where
  "EnterActiveContourMode env w =
     (let w1 = InitializeSNAPImageData env
                 (GetSegmentationROISettings (IRISApplication_GetGlobalState (m_Driver (Model w)))) w;
          w2 = SetCurrentImageDataToSNAP env w1
      in SetToolbarMode NAVIGATION_MODE w2)"

subsection \<open>The constructor of GlobalUIModel\<close>

text \<open>
  The constructor creates the objects of the user interface model and connects them. An
  object is known by its address; \<^verbatim>\<open>New\<close> returns an address not handed out before. The
  classes of the objects are not part of the sources, so a call of one of their methods
  is recorded with the object it is called on and its arguments.
\<close>

datatype class_id =
    C_SNAPAppearanceSettings
  | C_IRISApplication
  | C_GenericSliceModel
  | C_OrthogonalSliceCursorNavigationModel
  | C_PolygonDrawingModel
  | C_SnakeROIModel
  | C_SliceWindowCoordinator
  | C_IntensityCurveModel
  | C_ColorMapModel
  | C_ImageInfoModel
  | C_LayerSelectionModel
  | C_Generic3DModel
  | C_LabelEditorModel
  | C_CursorInspectionModel
  | C_SnakeWizardModel

datatype event =
    CursorUpdateEvent
  | ValueChangedEvent
  | MainImageDimensionsChangeEvent
  | DomainChangedEvent
  | LinkedZoomUpdateEvent
  | StateMachineChangeEvent
  | LayerChangeEvent
  | ToolbarModeChangeEvent
  | LabelUnderCursorChangedEvent
  | SegmentationLabelChangeEvent
  | SegmentationChangeEvent
  | SegmentationROIChangedEvent

datatype LayerRole = MAIN_ROLE | OVERLAY_ROLE

text \<open>
  The source of a rebroadcast event is an object of the model or one of two objects the
  driver owns, reached through the driver: its colour label table and the model of the
  region of interest settings of its global state.
\<close>

datatype event_source =
    Object address
  | GetColorLabelTable address
  | GetSegmentationROISettingsModel address

datatype ctor_call =
    New class_id address
  | Initialize address address nat
  | Initialize3D address address
  | SetParent address address
  | SetParentModel address address
  | SetRoleFilter address "LayerRole list"
  | RegisterSliceModels address "address list"
  | NewSimpleConcreteProperty ToolbarModeType address
  | makeChildPropertyModel address address
  | Rebroadcast address event_source event event

text \<open>
  The pointer members of the object under construction, the next free address and the
  calls made so far. The three arrays have three elements each.
\<close>

record GlobalUIModel_members =
  NextAddress :: address
  CtorCalls :: "ctor_call list"
  m_AppearanceSettings :: address
  m_Driver_ptr :: address
  m_SliceModel :: "address list"
  m_CursorNavigationModel :: "address list"
  m_PolygonDrawingModel :: "address list"
  m_SnakeROIModel :: "address list"
  m_SliceCoordinator_ptr :: address
  m_IntensityCurveModel :: address
  m_ColorMapModel :: address
  m_ImageInfoModel :: address
  m_LoadedLayersSelectionModel :: address
  m_Model3D :: address
  m_LabelEditorModel :: address
  m_CursorInspectionModel :: address
  m_SnakeWizardModel :: address
  m_ToolbarModeModel_ptr :: address
  m_CursorPositionModel :: address

definition fresh :: "GlobalUIModel_members \<Rightarrow> address \<times> GlobalUIModel_members" where
  "fresh s = (NextAddress s, s\<lparr>NextAddress := Suc (NextAddress s)\<rparr>)"

definition invoke :: "ctor_call \<Rightarrow> GlobalUIModel_members \<Rightarrow> GlobalUIModel_members" where
  "invoke c s = s\<lparr>CtorCalls := CtorCalls s @ [c]\<rparr>"

definition create :: "class_id \<Rightarrow> GlobalUIModel_members \<Rightarrow> address \<times> GlobalUIModel_members" where
  "create c s = (let (a, s1) = fresh s in (a, invoke (New c a) s1))"

text \<open>The body of the loop over the three slice views, for index \<open>i\<close>.\<close>

definition slice_models_body ::
  "address \<Rightarrow> nat \<Rightarrow> GlobalUIModel_members \<Rightarrow> GlobalUIModel_members" where
  "slice_models_body this i s =
     (let (a, s) = create C_GenericSliceModel s;
          s = s\<lparr>m_SliceModel := (m_SliceModel s)[i := a]\<rparr>;
          s = invoke (Initialize (m_SliceModel s ! i) this i) s;
          (a, s) = create C_OrthogonalSliceCursorNavigationModel s;
          s = s\<lparr>m_CursorNavigationModel := (m_CursorNavigationModel s)[i := a]\<rparr>;
          s = invoke (SetParent (m_CursorNavigationModel s ! i) (m_SliceModel s ! i)) s;
          (a, s) = create C_PolygonDrawingModel s;
          s = s\<lparr>m_PolygonDrawingModel := (m_PolygonDrawingModel s)[i := a]\<rparr>;
          s = invoke (SetParent (m_PolygonDrawingModel s ! i) (m_SliceModel s ! i)) s;
          (a, s) = create C_SnakeROIModel s;
          s = s\<lparr>m_SnakeROIModel := (m_SnakeROIModel s)[i := a]\<rparr>;
          s = invoke (SetParent (m_SnakeROIModel s ! i) (m_SliceModel s ! i)) s
      in s)"

function slice_models_loop ::
  "address \<Rightarrow> nat \<Rightarrow> GlobalUIModel_members \<Rightarrow> GlobalUIModel_members" where
  "slice_models_loop this i s =
     (if i < 3 then slice_models_loop this (i + 1) (slice_models_body this i s) else s)"
  by pat_completeness auto
termination
  by (relation "measure (\<lambda>(this, i, s). 3 - i)") auto

text \<open>
  Before the body of the constructor runs, the smart pointers of the object are null
  (address 0). \<open>next\<close> is the first free address.
\<close>

definition unset_members :: "address \<Rightarrow> GlobalUIModel_members" where
  "unset_members next =
     \<lparr>NextAddress = next, CtorCalls = [],
      m_AppearanceSettings = 0, m_Driver_ptr = 0,
      m_SliceModel = [0, 0, 0], m_CursorNavigationModel = [0, 0, 0],
      m_PolygonDrawingModel = [0, 0, 0], m_SnakeROIModel = [0, 0, 0],
      m_SliceCoordinator_ptr = 0, m_IntensityCurveModel = 0, m_ColorMapModel = 0,
      m_ImageInfoModel = 0, m_LoadedLayersSelectionModel = 0, m_Model3D = 0,
      m_LabelEditorModel = 0, m_CursorInspectionModel = 0, m_SnakeWizardModel = 0,
      m_ToolbarModeModel_ptr = 0, m_CursorPositionModel = 0\<rparr>"

definition create_models :: "address \<Rightarrow> GlobalUIModel_members \<Rightarrow> GlobalUIModel_members" where
  "create_models this s =
     (let (a, s) = create C_SNAPAppearanceSettings s;
          s = s\<lparr>m_AppearanceSettings := a\<rparr>;
          (a, s) = create C_IRISApplication s;
          s = s\<lparr>m_Driver_ptr := a\<rparr>;
          s = slice_models_loop this 0 s;
          (a, s) = create C_SliceWindowCoordinator s;
          s = s\<lparr>m_SliceCoordinator_ptr := a\<rparr>;
          s = invoke (RegisterSliceModels (m_SliceCoordinator_ptr s)
                        [m_SliceModel s ! 0, m_SliceModel s ! 1, m_SliceModel s ! 2]) s;
          (a, s) = create C_IntensityCurveModel s;
          s = s\<lparr>m_IntensityCurveModel := a\<rparr>;
          s = invoke (SetParentModel (m_IntensityCurveModel s) this) s;
          (a, s) = create C_ColorMapModel s;
          s = s\<lparr>m_ColorMapModel := a\<rparr>;
          s = invoke (SetParentModel (m_ColorMapModel s) this) s;
          (a, s) = create C_ImageInfoModel s;
          s = s\<lparr>m_ImageInfoModel := a\<rparr>;
          s = invoke (SetParentModel (m_ImageInfoModel s) this) s;
          (a, s) = create C_LayerSelectionModel s;
          s = s\<lparr>m_LoadedLayersSelectionModel := a\<rparr>;
          s = invoke (SetParentModel (m_LoadedLayersSelectionModel s) this) s;
          s = invoke (SetRoleFilter (m_LoadedLayersSelectionModel s) [MAIN_ROLE, OVERLAY_ROLE]) s;
          (a, s) = create C_Generic3DModel s;
          s = s\<lparr>m_Model3D := a\<rparr>;
          s = invoke (Initialize3D (m_Model3D s) this) s;
          (a, s) = create C_LabelEditorModel s;
          s = s\<lparr>m_LabelEditorModel := a\<rparr>;
          s = invoke (SetParentModel (m_LabelEditorModel s) this) s;
          (a, s) = create C_CursorInspectionModel s;
          s = s\<lparr>m_CursorInspectionModel := a\<rparr>;
          s = invoke (SetParentModel (m_CursorInspectionModel s) this) s;
          (a, s) = create C_SnakeWizardModel s;
          s = s\<lparr>m_SnakeWizardModel := a\<rparr>;
          s = invoke (SetParentModel (m_SnakeWizardModel s) this) s
      in s)"

definition create_properties :: "address \<Rightarrow> GlobalUIModel_members \<Rightarrow> GlobalUIModel_members" where
  "create_properties this s =
     (let (a, s) = fresh s;
          s = invoke (NewSimpleConcreteProperty CROSSHAIRS_MODE a) s;
          s = s\<lparr>m_ToolbarModeModel_ptr := a\<rparr>;
          (a, s) = fresh s;
          s = invoke (makeChildPropertyModel this a) s;
          s = s\<lparr>m_CursorPositionModel := a\<rparr>
      in s)"

definition connect_events :: "address \<Rightarrow> GlobalUIModel_members \<Rightarrow> GlobalUIModel_members" where
  "connect_events this s =
     (let s = invoke (Rebroadcast (m_CursorPositionModel s) (Object this)
                        CursorUpdateEvent ValueChangedEvent) s;
          s = invoke (Rebroadcast (m_CursorPositionModel s) (Object (m_Driver_ptr s))
                        MainImageDimensionsChangeEvent DomainChangedEvent) s;
          s = invoke (Rebroadcast this (Object (m_SliceCoordinator_ptr s))
                        LinkedZoomUpdateEvent LinkedZoomUpdateEvent) s;
          s = invoke (Rebroadcast this (Object (m_SliceCoordinator_ptr s))
                        LinkedZoomUpdateEvent StateMachineChangeEvent) s;
          s = invoke (Rebroadcast this (Object (m_Driver_ptr s))
                        CursorUpdateEvent CursorUpdateEvent) s;
          s = invoke (Rebroadcast this (Object (m_Driver_ptr s))
                        LayerChangeEvent LayerChangeEvent) s;
          s = invoke (Rebroadcast this (Object (m_Driver_ptr s))
                        LayerChangeEvent StateMachineChangeEvent) s;
          s = invoke (Rebroadcast this (Object (m_ToolbarModeModel_ptr s))
                        ValueChangedEvent ToolbarModeChangeEvent) s;
          s = invoke (Rebroadcast this (Object this)
                        CursorUpdateEvent LabelUnderCursorChangedEvent) s;
          s = invoke (Rebroadcast this (GetColorLabelTable (m_Driver_ptr s))
                        SegmentationLabelChangeEvent LabelUnderCursorChangedEvent) s;
          s = invoke (Rebroadcast this (Object (m_Driver_ptr s))
                        SegmentationChangeEvent LabelUnderCursorChangedEvent) s;
          s = invoke (Rebroadcast this (GetSegmentationROISettingsModel (m_Driver_ptr s))
                        ValueChangedEvent SegmentationROIChangedEvent) s
      in s)"

definition GlobalUIModel_ctor :: "address \<Rightarrow> address \<Rightarrow> GlobalUIModel_members" where
  "GlobalUIModel_ctor this next =
     connect_events this (create_properties this (create_models this (unset_members next)))"

text \<open>Reading a log of the constructor: the objects created of a class, and the calls of a kind.\<close>

fun created :: "class_id \<Rightarrow> ctor_call list \<Rightarrow> address list" where
  "created c [] = []"
| "created c (New c' a # cs) = (if c' = c then a # created c cs else created c cs)"
| "created c (_ # cs) = created c cs"

fun is_Initialize :: "ctor_call \<Rightarrow> bool" where
  "is_Initialize (Initialize _ _ _) = True"
| "is_Initialize _ = False"

fun is_SetParent :: "ctor_call \<Rightarrow> bool" where
  "is_SetParent (SetParent _ _) = True"
| "is_SetParent _ = False"

fun is_RegisterSliceModels :: "ctor_call \<Rightarrow> bool" where
  "is_RegisterSliceModels (RegisterSliceModels _ _) = True"
| "is_RegisterSliceModels _ = False"

text \<open>
  The functions that follow keep a log of their calls in the state they pass on.
  \<open>calls_since old new\<close> is what a log \<open>new\<close> holds beyond an earlier log \<open>old\<close>.
\<close>

definition calls_since :: "'c list \<Rightarrow> 'c list \<Rightarrow> 'c list" where
  "calls_since old new = drop (length old) new"

subsection \<open>Loading an image without interaction\<close>

text \<open>
  \<^verbatim>\<open>LoadImageNonInteractive(fname, del, wl)\<close> calls the system interface, a
  \<^verbatim>\<open>GuidedNativeImageIO\<close> and the delegate \<^verbatim>\<open>del\<close>; none of the three is part of the
  sources, so what they return is a parameter. Errors of reading and validating are
  exceptions (section 7 of the specification); the function has no handler, so an
  exception thrown by a callee ends it at that call. The registry and the image IO
  object are local to the function; the warning list is the caller's, passed on by
  reference, and the application is what the delegate updates.
\<close>

datatype IRISException = IRISException string

type_synonym IRISWarning = string

type_synonym IRISWarningList = "IRISWarning list"

record ('reg, 'io) image_io =
  FindRegistryAssociatedWithFile :: "string \<Rightarrow> IRISException + 'reg"
  Folder :: "'reg \<Rightarrow> string \<Rightarrow> 'reg"
  ReadNativeImageHeader :: "string \<Rightarrow> 'reg \<Rightarrow> IRISException + 'io"
  ReadNativeImageData :: "'io \<Rightarrow> IRISException + 'io"

text \<open>
  The delegate is given the image IO object to inspect. A validation step returns the
  warning list as it leaves it, with the exception it throws, if any;
  \<^verbatim>\<open>UpdateApplicationWithImage\<close> likewise for the application.
\<close>

record ('io, 'app) AbstractLoadImageDelegate =
  ValidateHeader :: "'io \<Rightarrow> IRISWarningList \<Rightarrow> IRISException option \<times> IRISWarningList"
  ValidateImage :: "'io \<Rightarrow> IRISWarningList \<Rightarrow> IRISException option \<times> IRISWarningList"
  UpdateApplicationWithImage :: "'io \<Rightarrow> 'app \<Rightarrow> IRISException option \<times> 'app"

datatype 'reg load_call =
    Call_FindRegistryAssociatedWithFile string
  | Call_ReadNativeImageHeader string 'reg
  | Call_ValidateHeader IRISWarningList
  | Call_ReadNativeImageData
  | Call_ValidateImage IRISWarningList
  | Call_UpdateApplicationWithImage

record ('reg, 'app) load_state =
  Calls :: "'reg load_call list"
  Warnings :: IRISWarningList
  Application :: 'app

definition called ::
  "'reg load_call \<Rightarrow> ('reg, 'app) load_state \<Rightarrow> ('reg, 'app) load_state" where
  "called c s = s\<lparr>Calls := Calls s @ [c]\<rparr>"

text \<open>
  The result is the exception that ended the call (\<open>None\<close> when it returned) and the
  state it left: the calls made, the caller's warning list and the application.
\<close>

definition LoadImageNonInteractive ::
  "('reg, 'io) image_io \<Rightarrow> string \<Rightarrow> ('io, 'app) AbstractLoadImageDelegate \<Rightarrow>
     ('reg, 'app) load_state \<Rightarrow> IRISException option \<times> ('reg, 'app) load_state" where
  "LoadImageNonInteractive sys fname del s =
     (let s1 = called (Call_FindRegistryAssociatedWithFile fname) s in
      case FindRegistryAssociatedWithFile sys fname of
        Inl e \<Rightarrow> (Some e, s1)
      | Inr reg \<Rightarrow>
     (let folder = Folder sys reg ''Files.Grey'';
          s2 = called (Call_ReadNativeImageHeader fname folder) s1 in
      case ReadNativeImageHeader sys fname folder of
        Inl e \<Rightarrow> (Some e, s2)
      | Inr io \<Rightarrow>
     (let s3 = called (Call_ValidateHeader (Warnings s2)) s2 in
      case ValidateHeader del io (Warnings s3) of
        (Some e, wl) \<Rightarrow> (Some e, s3\<lparr>Warnings := wl\<rparr>)
      | (None, wl) \<Rightarrow>
     (let s4 = called Call_ReadNativeImageData (s3\<lparr>Warnings := wl\<rparr>) in
      case ReadNativeImageData sys io of
        Inl e \<Rightarrow> (Some e, s4)
      | Inr io' \<Rightarrow>
     (let s5 = called (Call_ValidateImage (Warnings s4)) s4 in
      case ValidateImage del io' (Warnings s5) of
        (Some e, wl') \<Rightarrow> (Some e, s5\<lparr>Warnings := wl'\<rparr>)
      | (None, wl') \<Rightarrow>
     (let s6 = called Call_UpdateApplicationWithImage (s5\<lparr>Warnings := wl'\<rparr>) in
      case UpdateApplicationWithImage del io' (Application s6) of
        (ex, app) \<Rightarrow> (ex, s6\<lparr>Application := app\<rparr>)))))))"

subsection \<open>PolygonDrawingInteractionMode\<close>

text \<open>
  The Qt events carry the button that changed state, the keyboard modifiers held and the
  accepted flag that \<^verbatim>\<open>accept()\<close> sets. \<^verbatim>\<open>testFlag\<close> asks whether a modifier is held.
\<close>

datatype MouseButton = NoButton | LeftButton | RightButton | MiddleButton

datatype KeyboardModifier = ShiftModifier | ControlModifier | AltModifier | MetaModifier

record QMouseEvent =
  button :: MouseButton
  modifiers :: "KeyboardModifier list"
  accepted :: bool

record QContextMenuEvent =
  menu_modifiers :: "KeyboardModifier list"

definition testFlag :: "KeyboardModifier list \<Rightarrow> KeyboardModifier \<Rightarrow> bool" where
  "testFlag ms m = (m \<in> set ms)"

definition accept :: "QMouseEvent \<Rightarrow> QMouseEvent" where
  "accept ev = ev\<lparr>accepted := True\<rparr>"

text \<open>
  The slice coordinates of the mouse are doubles that the handlers only pass on, so a
  real number stands for each. \<^verbatim>\<open>m_XSlice(i)\<close> reads component \<open>i\<close>.
\<close>

type_synonym double = real

datatype Vector3d = Vector3d double double double

fun component :: "Vector3d \<Rightarrow> nat \<Rightarrow> double" where
  "component (Vector3d x y z) i = (if i = 0 then x else if i = 1 then y else z)"

text \<open>
  \<^verbatim>\<open>PolygonDrawingModel\<close> is not part of the sources. Its methods are parameters: each
  takes the state of the polygon model and returns its result with the new state;
  \<^verbatim>\<open>AcceptPolygon\<close> also returns what it leaves in the warning list it is given by
  reference.
\<close>

record 'pm PolygonDrawingModel =
  ProcessPushEvent :: "double \<Rightarrow> double \<Rightarrow> bool \<Rightarrow> 'pm \<Rightarrow> bool \<times> 'pm"
  ProcessDragEvent :: "double \<Rightarrow> double \<Rightarrow> 'pm \<Rightarrow> bool \<times> 'pm"
  ProcessMouseMoveEvent :: "double \<Rightarrow> double \<Rightarrow> 'pm \<Rightarrow> bool \<times> 'pm"
  ProcessReleaseEvent :: "double \<Rightarrow> double \<Rightarrow> 'pm \<Rightarrow> bool \<times> 'pm"
  AcceptPolygon :: "IRISWarning list \<Rightarrow> 'pm \<Rightarrow> IRISWarning list \<times> 'pm"

record 'roi GenericSliceModel =
  Driver :: "'roi IRISApplication"

definition GetDriver :: "'roi GenericSliceModel \<Rightarrow> 'roi IRISApplication" where
  "GetDriver sm = Driver sm"

text \<open>What a handler does outside the widget, in program order.\<close>

datatype widget_call =
    Call_ProcessPushEvent double double bool
  | Call_ProcessDragEvent double double
  | Call_ProcessMouseMoveEvent double double
  | Call_ProcessReleaseEvent double double
  | Call_accept
  | Call_update
  | Emit_contextMenuRequested
  | Call_makeCurrent
  | Call_AcceptPolygon "IRISWarning list"
  | Call_QtWarningDialog_show "IRISWarning list"

record ('pm, 'roi) PolygonDrawingInteractionMode =
  Log :: "widget_call list"
  m_Model :: 'pm
  m_ParentModel :: "'roi GenericSliceModel"
  m_XSlice :: Vector3d
  m_LeftDown :: bool

definition emit ::
  "widget_call \<Rightarrow> ('pm, 'roi) PolygonDrawingInteractionMode \<Rightarrow>
     ('pm, 'roi) PolygonDrawingInteractionMode" where
  "emit c w = w\<lparr>Log := Log w @ [c]\<rparr>"

definition mousePressEvent ::
  "'pm PolygonDrawingModel \<Rightarrow> QMouseEvent \<Rightarrow> ('pm, 'roi) PolygonDrawingInteractionMode \<Rightarrow>
     QMouseEvent \<times> ('pm, 'roi) PolygonDrawingInteractionMode" where
  "mousePressEvent pdm ev w =
     (if button ev = LeftButton then
        (let x = component (m_XSlice w) 0;
             y = component (m_XSlice w) 1;
             shift = testFlag (modifiers ev) ShiftModifier;
             (r, pm) = ProcessPushEvent pdm x y shift (m_Model w);
             w1 = (emit (Call_ProcessPushEvent x y shift) w)\<lparr>m_Model := pm\<rparr>
         in if r then (accept ev, emit Call_accept w1) else (ev, w1))
      else (ev, w))"

definition mouseMoveEvent ::
  "'pm PolygonDrawingModel \<Rightarrow> QMouseEvent \<Rightarrow> ('pm, 'roi) PolygonDrawingInteractionMode \<Rightarrow>
     QMouseEvent \<times> ('pm, 'roi) PolygonDrawingInteractionMode" where
  "mouseMoveEvent pdm ev w =
     (let x = component (m_XSlice w) 0;
          y = component (m_XSlice w) 1
      in if m_LeftDown w then
           (let (r, pm) = ProcessDragEvent pdm x y (m_Model w);
                w1 = (emit (Call_ProcessDragEvent x y) w)\<lparr>m_Model := pm\<rparr>
            in if r then (accept ev, emit Call_accept w1) else (ev, w1))
         else
           (let (r, pm) = ProcessMouseMoveEvent pdm x y (m_Model w);
                w1 = (emit (Call_ProcessMouseMoveEvent x y) w)\<lparr>m_Model := pm\<rparr>
            in if r then (accept ev, emit Call_update (emit Call_accept w1)) else (ev, w1)))"

definition mouseReleaseEvent ::
  "'pm PolygonDrawingModel \<Rightarrow> QMouseEvent \<Rightarrow> ('pm, 'roi) PolygonDrawingInteractionMode \<Rightarrow>
     QMouseEvent \<times> ('pm, 'roi) PolygonDrawingInteractionMode" where
  "mouseReleaseEvent pdm ev w =
     (if button ev = LeftButton then
        (let x = component (m_XSlice w) 0;
             y = component (m_XSlice w) 1;
             (r, pm) = ProcessReleaseEvent pdm x y (m_Model w);
             w1 = (emit (Call_ProcessReleaseEvent x y) w)\<lparr>m_Model := pm\<rparr>
         in if r then (accept ev, emit Call_accept w1) else (ev, w1))
      else (ev, w))"

definition contextMenuEvent ::
  "QContextMenuEvent \<Rightarrow> ('pm, 'roi) PolygonDrawingInteractionMode \<Rightarrow>
     ('pm, 'roi) PolygonDrawingInteractionMode" where
  "contextMenuEvent ev w =
     (if GetPolygonDrawingContextMenu
           (IRISApplication_GetGlobalState (GetDriver (m_ParentModel w)))
         \<or> testFlag (menu_modifiers ev) ControlModifier
         \<or> testFlag (menu_modifiers ev) MetaModifier
      then emit Emit_contextMenuRequested w
      else w)"

text \<open>
  \<^verbatim>\<open>onAcceptPolygon\<close>: \<^verbatim>\<open>warnings.size()\<close> as a condition is true when the list is not
  empty.
\<close>

definition onAcceptPolygon ::
  "'pm PolygonDrawingModel \<Rightarrow> ('pm, 'roi) PolygonDrawingInteractionMode \<Rightarrow>
     ('pm, 'roi) PolygonDrawingInteractionMode" where
  "onAcceptPolygon pdm w =
     (let w1 = emit Call_makeCurrent w;
          warnings = [];
          (warnings', pm) = AcceptPolygon pdm warnings (m_Model w1);
          w2 = (emit (Call_AcceptPolygon warnings) w1)\<lparr>m_Model := pm\<rparr>
      in if length warnings' \<noteq> 0 then emit (Call_QtWarningDialog_show warnings') w2 else w2)"

text \<open>
  A world for evaluating the functions: a \<open>4 \<times> 5 \<times> 6\<close> main image is loaded, the cursor
  is at voxel \<open>(2, 0, 1)\<close> and the toolbar is in crosshairs mode.
\<close>

definition example_driver :: "nat IRISApplication" where
  "example_driver =
     \<lparr>SystemInterface = 4096,
      GlobalState = \<lparr>SegmentationROISettings = 7, PolygonDrawingContextMenu = False\<rparr>,
      CursorPosition = Vector3ui 2 0 1,
      CurrentImageData =
        \<lparr>MainLoaded = True, RGBLoaded = False, OverlayLoaded = False,
         Main = \<lparr>Size = Vector3ui 4 5 6\<rparr>\<rparr>,
      SnakeModeActive = False\<rparr>"

definition example_world :: "nat world" where
  "example_world =
     \<lparr>Trace = [],
      Model = \<lparr>m_Driver = example_driver,
               m_SliceCoordinator = \<lparr>LinkedZoom = False\<rparr>,
               m_ToolbarModeModel = CROSSHAIRS_MODE\<rparr>\<rparr>"

text \<open>
  An image source and a delegate for evaluating the loading function: the registry is
  the list of the keys followed, the image IO object counts the reads, each validation
  step adds one warning, and the update adds the reads to the application.
\<close>

definition example_image_io :: "(string list, nat) image_io" where
  "example_image_io =
     \<lparr>FindRegistryAssociatedWithFile = (\<lambda>fname. Inr [fname]),
      Folder = (\<lambda>reg key. key # reg),
      ReadNativeImageHeader =
        (\<lambda>fname reg. if fname = [] then Inl (IRISException ''no file name'') else Inr 1),
      ReadNativeImageData = (\<lambda>io. Inr (io + 1))\<rparr>"

definition example_delegate :: "(nat, nat) AbstractLoadImageDelegate" where
  "example_delegate =
     \<lparr>ValidateHeader = (\<lambda>io wl. (None, wl @ [''header warning''])),
      ValidateImage = (\<lambda>io wl. (None, wl @ [''image warning''])),
      UpdateApplicationWithImage = (\<lambda>io app. (None, app + io))\<rparr>"

text \<open>A delegate whose header validation leaves a warning and then rejects the image.\<close>

definition example_strict_delegate :: "(nat, nat) AbstractLoadImageDelegate" where
  "example_strict_delegate =
     \<lparr>ValidateHeader =
        (\<lambda>io wl. (Some (IRISException ''size mismatch''), wl @ [''header warning''])),
      ValidateImage = (\<lambda>io wl. (None, wl @ [''image warning''])),
      UpdateApplicationWithImage = (\<lambda>io app. (None, app + io))\<rparr>"

text \<open>
  A polygon model and a widget for evaluating the handlers: the state of the polygon
  model is its number of vertices, a push adds one, and accepting a polygon of fewer than
  three vertices leaves a warning.
\<close>

definition example_polygon_model :: "nat PolygonDrawingModel" where
  "example_polygon_model =
     \<lparr>ProcessPushEvent = (\<lambda>x y shift n. (True, n + 1)),
      ProcessDragEvent = (\<lambda>x y n. (0 < n, n)),
      ProcessMouseMoveEvent = (\<lambda>x y n. (False, n)),
      ProcessReleaseEvent = (\<lambda>x y n. (0 < n, n)),
      AcceptPolygon =
        (\<lambda>wl n. (if n < 3 then wl @ [''polygon has fewer than three vertices''] else wl, 0))\<rparr>"

definition example_widget :: "(nat, nat) PolygonDrawingInteractionMode" where
  "example_widget =
     \<lparr>Log = [], m_Model = 2, m_ParentModel = \<lparr>Driver = example_driver\<rparr>,
      m_XSlice = Vector3d 10 20 0, m_LeftDown = False\<rparr>"

section \<open>Properties of GlobalUIModel\<close>

lemma Vector3ui_plus_minus: "Vector3ui_plus (Vector3ui_minus v s) s = v"
  by (cases v) simp

text \<open>
  C5. The model has no copy of the application state: \<^verbatim>\<open>GetSystemInterface\<close> returns
  the driver's system interface and \<^verbatim>\<open>GetGlobalState\<close> the driver's global state,
  whatever the other members of the model hold, and \<^verbatim>\<open>SetCursorPosition(v)\<close> makes one
  call, the driver's \<^verbatim>\<open>SetCursorPosition\<close> with \<open>v - 1\<close>, and changes nothing else in the
  model.
\<close>

theorem GlobalUIModel_forwards_to_driver:
  "GlobalUIModel_GetSystemInterface m = IRISApplication_GetSystemInterface (m_Driver m)
   \<and> GlobalUIModel_GetGlobalState m = IRISApplication_GetGlobalState (m_Driver m)
   \<and> GlobalUIModel_GetSystemInterface (m\<lparr>m_SliceCoordinator := c, m_ToolbarModeModel := t\<rparr>)
       = GlobalUIModel_GetSystemInterface m
   \<and> GlobalUIModel_GetGlobalState (m\<lparr>m_SliceCoordinator := c, m_ToolbarModeModel := t\<rparr>)
       = GlobalUIModel_GetGlobalState m
   \<and> Trace (SetCursorPosition v w) = Trace w @ [Call_SetCursorPosition (Vector3ui_minus v 1)]
   \<and> m_Driver (Model (SetCursorPosition v w))
       = IRISApplication_SetCursorPosition (Vector3ui_minus v 1) (m_Driver (Model w))
   \<and> m_SliceCoordinator (Model (SetCursorPosition v w)) = m_SliceCoordinator (Model w)
   \<and> m_ToolbarModeModel (Model (SetCursorPosition v w)) = m_ToolbarModeModel (Model w)"
  by (simp add: GlobalUIModel_GetSystemInterface_def GlobalUIModel_GetGlobalState_def
      SetCursorPosition_def Let_def)

text \<open>
  C6. \<^verbatim>\<open>EnterActiveContourMode\<close> makes exactly three calls, in this order: the driver's
  \<^verbatim>\<open>InitializeSNAPImageData\<close> with the region of interest that the global state holds
  on entry, the driver's \<^verbatim>\<open>SetCurrentImageDataToSNAP\<close>, and \<^verbatim>\<open>SetToolbarMode\<close> with
  \<^verbatim>\<open>NAVIGATION_MODE\<close>. The driver ends as the second operation leaves the result of the
  first, and the toolbar ends in navigation mode.
\<close>

theorem EnterActiveContourMode_steps:
  "Trace (EnterActiveContourMode env w) =
     Trace w @
       [Call_InitializeSNAPImageData
          (GetSegmentationROISettings (GlobalUIModel_GetGlobalState (Model w))),
        Call_SetCurrentImageDataToSNAP,
        Call_SetToolbarMode NAVIGATION_MODE]
   \<and> m_Driver (Model (EnterActiveContourMode env w)) =
       SetCurrentImageDataToSNAP_effect env
         (InitializeSNAPImageData_effect env
            (GetSegmentationROISettings (GlobalUIModel_GetGlobalState (Model w)))
            (m_Driver (Model w)))
   \<and> m_ToolbarModeModel (Model (EnterActiveContourMode env w)) = NAVIGATION_MODE"
  by (simp add: EnterActiveContourMode_def SetToolbarMode_def SetCurrentImageDataToSNAP_def
      InitializeSNAPImageData_def GlobalUIModel_GetGlobalState_def Let_def)

text \<open>The three calls in the example world, whose region of interest is 7.\<close>

lemma EnterActiveContourMode_example:
  "Trace (EnterActiveContourMode
            \<lparr>InitializeSNAPImageData_effect = (\<lambda>roi d. d),
             SetCurrentImageDataToSNAP_effect = (\<lambda>d. d\<lparr>SnakeModeActive := True\<rparr>)\<rparr>
            example_world) =
     [Call_InitializeSNAPImageData 7, Call_SetCurrentImageDataToSNAP,
      Call_SetToolbarMode NAVIGATION_MODE]"
  by (simp add: EnterActiveContourMode_def InitializeSNAPImageData_def
      SetCurrentImageDataToSNAP_def SetToolbarMode_def example_world_def example_driver_def
      GetSegmentationROISettings_def IRISApplication_GetGlobalState_def)

text \<open>
  C8. With a main image loaded, \<^verbatim>\<open>GetCursorPositionValueAndRange\<close> returns true and
  writes the driver's cursor position plus one to \<^verbatim>\<open>value\<close>; a range object the caller
  passes is set to minimum \<open>(1, 1, 1)\<close>, maximum the size of the main image and step
  \<open>(1, 1, 1)\<close>, and a null range pointer is left alone. \<^verbatim>\<open>SetCursorPosition(v)\<close> leaves
  \<open>v - 1\<close> in the driver, so reading the position after setting it to \<open>v\<close> gives \<open>v\<close>
  again, for every \<open>v\<close> (in range or not: the unsigned arithmetic wraps both ways).
\<close>

theorem cursor_position_one_offset:
  assumes loaded: "IsMainLoaded (GetCurrentImageData (m_Driver (Model w)))"
  shows
  "GetCursorPositionValueAndRange (Model w) val None =
     (True, Vector3ui_plus (GetCursorPosition (m_Driver (Model w))) 1, None)
   \<and> GetCursorPositionValueAndRange (Model w) val (Some r) =
     (True, Vector3ui_plus (GetCursorPosition (m_Driver (Model w))) 1,
      Some (r\<lparr>Minimum := Vector3ui 1 1 1,
              Maximum := GetSize (GetMain (GetCurrentImageData (m_Driver (Model w)))),
              StepSize := Vector3ui 1 1 1\<rparr>))
   \<and> GetCursorPosition (m_Driver (Model (SetCursorPosition v w))) = Vector3ui_minus v 1
   \<and> fst (GetCursorPositionValueAndRange (Model (SetCursorPosition v w)) val rng) = True
   \<and> fst (snd (GetCursorPositionValueAndRange (Model (SetCursorPosition v w)) val rng)) = v"
  using loaded
  by (simp add: GetCursorPositionValueAndRange_def SetCursorPosition_def Let_def
      IRISApplication_SetCursorPosition_def GetCursorPosition_def GetCurrentImageData_def
      NumericValueRange_Set_def Vector3ui_plus_minus)

theorem cursor_position_one_offset_witness:
  "IsMainLoaded (GetCurrentImageData (m_Driver (Model example_world)))
   \<and> GetCursorPositionValueAndRange (Model example_world) (Vector3ui 0 0 0)
        (Some \<lparr>Minimum = Vector3ui 0 0 0, Maximum = Vector3ui 0 0 0, StepSize = Vector3ui 0 0 0\<rparr>)
       = (True, Vector3ui 3 1 2,
          Some \<lparr>Minimum = Vector3ui 1 1 1, Maximum = Vector3ui 4 5 6, StepSize = Vector3ui 1 1 1\<rparr>)
   \<and> GetCursorPosition (m_Driver (Model (SetCursorPosition (Vector3ui 4 2 6) example_world)))
       = Vector3ui 3 1 5
   \<and> fst (snd (GetCursorPositionValueAndRange
                 (Model (SetCursorPosition (Vector3ui 4 2 6) example_world))
                 (Vector3ui 0 0 0) None)) = Vector3ui 4 2 6"
proof -
  have loaded: "IsMainLoaded (GetCurrentImageData (m_Driver (Model example_world)))"
    by (simp add: IsMainLoaded_def GetCurrentImageData_def example_world_def example_driver_def)
  show ?thesis
    using loaded
      cursor_position_one_offset [OF loaded, of "Vector3ui 0 0 0"
        "\<lparr>Minimum = Vector3ui 0 0 0, Maximum = Vector3ui 0 0 0, StepSize = Vector3ui 0 0 0\<rparr>"
        "Vector3ui 4 2 6" None]
    by (simp add: example_world_def example_driver_def GetCursorPosition_def GetSize_def
        GetMain_def GetCurrentImageData_def)
qed

text \<open>
  C9. \<^verbatim>\<open>CheckState(UIF_GRAY_LOADED)\<close> and \<^verbatim>\<open>CheckState(UIF_BASEIMG_LOADED)\<close> return the
  same value in every state: each is \<^verbatim>\<open>IsMainLoaded\<close> of the driver's current image
  data.
\<close>

theorem CheckState_gray_is_baseimg:
  "CheckState m UIF_GRAY_LOADED = CheckState m UIF_BASEIMG_LOADED
   \<and> CheckState m UIF_GRAY_LOADED = IsMainLoaded (GetCurrentImageData (m_Driver m))
   \<and> CheckState m UIF_BASEIMG_LOADED = IsMainLoaded (GetCurrentImageData (m_Driver m))"
  by (simp add: CheckState_def)

text \<open>The loop over the slice views runs its body for the indices 0, 1 and 2.\<close>

lemma slice_models_loop_unrolled:
  "slice_models_loop this 0 s =
     slice_models_body this 2 (slice_models_body this 1 (slice_models_body this 0 s))"
proof -
  have stop: "slice_models_loop this 3 t = t" for t
    by (simp add: slice_models_loop.simps [of this 3])
  have two: "slice_models_loop this 2 t = slice_models_body this 2 t" for t
    using stop by (simp add: slice_models_loop.simps [of this 2] numeral_3_eq_3 numeral_2_eq_2)
  have one: "slice_models_loop this 1 t = slice_models_body this 2 (slice_models_body this 1 t)" for t
    using two by (simp add: slice_models_loop.simps [of this 1] numeral_2_eq_2)
  show ?thesis
    using one by (simp add: slice_models_loop.simps [of this 0])
qed

lemmas ctor_defs = GlobalUIModel_ctor_def connect_events_def create_properties_def
  create_models_def slice_models_loop_unrolled slice_models_body_def unset_members_def
  create_def fresh_def invoke_def Let_def

text \<open>
  The object as the constructor leaves it when \<open>n\<close> is the first free address: the
  59 calls in program order and the members.
\<close>

lemma GlobalUIModel_ctor_result:
  "GlobalUIModel_ctor this n =
     \<lparr>NextAddress = n + 25,
      CtorCalls =
        [New C_SNAPAppearanceSettings n,
         New C_IRISApplication (n + 1),
         New C_GenericSliceModel (n + 2),
         Initialize (n + 2) this 0,
         New C_OrthogonalSliceCursorNavigationModel (n + 3),
         SetParent (n + 3) (n + 2),
         New C_PolygonDrawingModel (n + 4),
         SetParent (n + 4) (n + 2),
         New C_SnakeROIModel (n + 5),
         SetParent (n + 5) (n + 2),
         New C_GenericSliceModel (n + 6),
         Initialize (n + 6) this 1,
         New C_OrthogonalSliceCursorNavigationModel (n + 7),
         SetParent (n + 7) (n + 6),
         New C_PolygonDrawingModel (n + 8),
         SetParent (n + 8) (n + 6),
         New C_SnakeROIModel (n + 9),
         SetParent (n + 9) (n + 6),
         New C_GenericSliceModel (n + 10),
         Initialize (n + 10) this 2,
         New C_OrthogonalSliceCursorNavigationModel (n + 11),
         SetParent (n + 11) (n + 10),
         New C_PolygonDrawingModel (n + 12),
         SetParent (n + 12) (n + 10),
         New C_SnakeROIModel (n + 13),
         SetParent (n + 13) (n + 10),
         New C_SliceWindowCoordinator (n + 14),
         RegisterSliceModels (n + 14) [n + 2, n + 6, n + 10],
         New C_IntensityCurveModel (n + 15),
         SetParentModel (n + 15) this,
         New C_ColorMapModel (n + 16),
         SetParentModel (n + 16) this,
         New C_ImageInfoModel (n + 17),
         SetParentModel (n + 17) this,
         New C_LayerSelectionModel (n + 18),
         SetParentModel (n + 18) this,
         SetRoleFilter (n + 18) [MAIN_ROLE, OVERLAY_ROLE],
         New C_Generic3DModel (n + 19),
         Initialize3D (n + 19) this,
         New C_LabelEditorModel (n + 20),
         SetParentModel (n + 20) this,
         New C_CursorInspectionModel (n + 21),
         SetParentModel (n + 21) this,
         New C_SnakeWizardModel (n + 22),
         SetParentModel (n + 22) this,
         NewSimpleConcreteProperty CROSSHAIRS_MODE (n + 23),
         makeChildPropertyModel this (n + 24),
         Rebroadcast (n + 24) (Object this) CursorUpdateEvent ValueChangedEvent,
         Rebroadcast (n + 24) (Object (n + 1)) MainImageDimensionsChangeEvent DomainChangedEvent,
         Rebroadcast this (Object (n + 14)) LinkedZoomUpdateEvent LinkedZoomUpdateEvent,
         Rebroadcast this (Object (n + 14)) LinkedZoomUpdateEvent StateMachineChangeEvent,
         Rebroadcast this (Object (n + 1)) CursorUpdateEvent CursorUpdateEvent,
         Rebroadcast this (Object (n + 1)) LayerChangeEvent LayerChangeEvent,
         Rebroadcast this (Object (n + 1)) LayerChangeEvent StateMachineChangeEvent,
         Rebroadcast this (Object (n + 23)) ValueChangedEvent ToolbarModeChangeEvent,
         Rebroadcast this (Object this) CursorUpdateEvent LabelUnderCursorChangedEvent,
         Rebroadcast this (GetColorLabelTable (n + 1)) SegmentationLabelChangeEvent LabelUnderCursorChangedEvent,
         Rebroadcast this (Object (n + 1)) SegmentationChangeEvent LabelUnderCursorChangedEvent,
         Rebroadcast this (GetSegmentationROISettingsModel (n + 1)) ValueChangedEvent SegmentationROIChangedEvent],
      m_AppearanceSettings = n, m_Driver_ptr = n + 1,
      m_SliceModel = [n + 2, n + 6, n + 10],
      m_CursorNavigationModel = [n + 3, n + 7, n + 11],
      m_PolygonDrawingModel = [n + 4, n + 8, n + 12],
      m_SnakeROIModel = [n + 5, n + 9, n + 13],
      m_SliceCoordinator_ptr = n + 14, m_IntensityCurveModel = n + 15,
      m_ColorMapModel = n + 16, m_ImageInfoModel = n + 17,
      m_LoadedLayersSelectionModel = n + 18, m_Model3D = n + 19,
      m_LabelEditorModel = n + 20, m_CursorInspectionModel = n + 21,
      m_SnakeWizardModel = n + 22, m_ToolbarModeModel_ptr = n + 23,
      m_CursorPositionModel = n + 24\<rparr>"
  by (simp add: ctor_defs)

text \<open>
  C4. The constructor sets up exactly three slice views. It creates three
  \<^verbatim>\<open>GenericSliceModel\<close> objects, distinct and stored in \<^verbatim>\<open>m_SliceModel\<close>, and
  initialises the one at index \<open>i\<close> with the model under construction and \<open>i\<close>, for
  \<open>i = 0, 1, 2\<close>. For each index it creates one cursor navigation model, one polygon
  drawing model and one snake ROI model, and the parent it sets for each is the slice
  model of that index. It creates one \<^verbatim>\<open>SliceWindowCoordinator\<close> and registers slice
  models once, the three of \<^verbatim>\<open>m_SliceModel\<close> with that coordinator.
\<close>

theorem GlobalUIModel_ctor_three_slice_views:
  "(let s = GlobalUIModel_ctor this n in
      length (m_SliceModel s) = 3
      \<and> distinct (m_SliceModel s)
      \<and> created C_GenericSliceModel (CtorCalls s) = m_SliceModel s
      \<and> filter is_Initialize (CtorCalls s) =
          map (\<lambda>i. Initialize (m_SliceModel s ! i) this i) [0, 1, 2]
      \<and> created C_OrthogonalSliceCursorNavigationModel (CtorCalls s) = m_CursorNavigationModel s
      \<and> created C_PolygonDrawingModel (CtorCalls s) = m_PolygonDrawingModel s
      \<and> created C_SnakeROIModel (CtorCalls s) = m_SnakeROIModel s
      \<and> filter is_SetParent (CtorCalls s) =
          concat (map (\<lambda>i. [SetParent (m_CursorNavigationModel s ! i) (m_SliceModel s ! i),
                             SetParent (m_PolygonDrawingModel s ! i) (m_SliceModel s ! i),
                             SetParent (m_SnakeROIModel s ! i) (m_SliceModel s ! i)])
                    [0, 1, 2])
      \<and> created C_SliceWindowCoordinator (CtorCalls s) = [m_SliceCoordinator_ptr s]
      \<and> filter is_RegisterSliceModels (CtorCalls s) =
          [RegisterSliceModels (m_SliceCoordinator_ptr s) (m_SliceModel s)])"
  unfolding GlobalUIModel_ctor_result Let_def by simp

text \<open>
  The constructor at address 1 with 100 the first free address: the first calls, the
  slice models, the registration and the number of calls.
\<close>

lemma GlobalUIModel_ctor_example:
  "take 16 (CtorCalls (GlobalUIModel_ctor 1 100)) =
     [New C_SNAPAppearanceSettings 100,
      New C_IRISApplication 101,
      New C_GenericSliceModel 102,
      Initialize 102 1 0,
      New C_OrthogonalSliceCursorNavigationModel 103,
      SetParent 103 102,
      New C_PolygonDrawingModel 104,
      SetParent 104 102,
      New C_SnakeROIModel 105,
      SetParent 105 102,
      New C_GenericSliceModel 106,
      Initialize 106 1 1,
      New C_OrthogonalSliceCursorNavigationModel 107,
      SetParent 107 106,
      New C_PolygonDrawingModel 108,
      SetParent 108 106]
   \<and> m_SliceModel (GlobalUIModel_ctor 1 100) = [102, 106, 110]
   \<and> RegisterSliceModels 114 [102, 106, 110] \<in> set (CtorCalls (GlobalUIModel_ctor 1 100))
   \<and> length (CtorCalls (GlobalUIModel_ctor 1 100)) = 59"
  unfolding GlobalUIModel_ctor_result by simp

text \<open>
  C1. \<^verbatim>\<open>LoadImageNonInteractive(fname, del, wl)\<close> collects the warnings of validation
  in the caller's list. The calls it makes are an initial part of: find the registry of
  the file, read the header, \<^verbatim>\<open>ValidateHeader\<close> with \<^verbatim>\<open>wl\<close> as the caller passed it,
  read the data, \<^verbatim>\<open>ValidateImage\<close> with \<^verbatim>\<open>wl\<close> as \<^verbatim>\<open>ValidateHeader\<close> left it,
  \<^verbatim>\<open>UpdateApplicationWithImage\<close>; the part is cut short only by an exception of a
  callee. So the application is updated only after both validation steps have run and
  returned, and a call that returns has updated it. Once the header is read
  \<^verbatim>\<open>ValidateHeader\<close> is called, once the data is read \<^verbatim>\<open>ValidateImage\<close> is called,
  and once both have returned the update is made and the caller's list holds what
  \<^verbatim>\<open>ValidateImage\<close> left in it. The state is fixed on every path: when a callee throws,
  the caller's list holds what the last validation step that ran left in it (what the
  caller passed when none ran) and the application is as it was; the application
  differs from what it was only when \<^verbatim>\<open>UpdateApplicationWithImage\<close> was called, and the
  list only when \<^verbatim>\<open>ValidateHeader\<close> was.
\<close>

theorem LoadImageNonInteractive_validates_before_update:
  "(\<exists>reg io io' wl1 wl2 new.
      Calls (snd (LoadImageNonInteractive sys fname del s)) = Calls s @ new
      \<and> prefix new
          [Call_FindRegistryAssociatedWithFile fname,
           Call_ReadNativeImageHeader fname (Folder sys reg ''Files.Grey''),
           Call_ValidateHeader (Warnings s),
           Call_ReadNativeImageData,
           Call_ValidateImage wl1,
           Call_UpdateApplicationWithImage]
      \<and> (Call_ValidateImage wl1 \<in> set new \<longrightarrow>
           FindRegistryAssociatedWithFile sys fname = Inr reg
           \<and> ReadNativeImageHeader sys fname (Folder sys reg ''Files.Grey'') = Inr io
           \<and> ValidateHeader del io (Warnings s) = (None, wl1)
           \<and> ReadNativeImageData sys io = Inr io')
      \<and> (Call_UpdateApplicationWithImage \<in> set new \<longrightarrow>
           Call_ValidateImage wl1 \<in> set new
           \<and> ValidateImage del io' wl1 = (None, wl2)
           \<and> Warnings (snd (LoadImageNonInteractive sys fname del s)) = wl2
           \<and> (fst (LoadImageNonInteractive sys fname del s),
               Application (snd (LoadImageNonInteractive sys fname del s)))
              = UpdateApplicationWithImage del io' (Application s))
      \<and> (fst (LoadImageNonInteractive sys fname del s) = None \<longrightarrow>
           Call_UpdateApplicationWithImage \<in> set new))
   \<and> (FindRegistryAssociatedWithFile sys fname = Inr r0
       \<and> ReadNativeImageHeader sys fname (Folder sys r0 ''Files.Grey'') = Inr i0 \<longrightarrow>
         Call_ValidateHeader (Warnings s)
           \<in> set (calls_since (Calls s) (Calls (snd (LoadImageNonInteractive sys fname del s)))))
   \<and> (FindRegistryAssociatedWithFile sys fname = Inr r0
       \<and> ReadNativeImageHeader sys fname (Folder sys r0 ''Files.Grey'') = Inr i0
       \<and> ValidateHeader del i0 (Warnings s) = (None, w1)
       \<and> ReadNativeImageData sys i0 = Inr i1 \<longrightarrow>
         Call_ValidateImage w1
           \<in> set (calls_since (Calls s) (Calls (snd (LoadImageNonInteractive sys fname del s)))))
   \<and> (FindRegistryAssociatedWithFile sys fname = Inr r0
       \<and> ReadNativeImageHeader sys fname (Folder sys r0 ''Files.Grey'') = Inr i0
       \<and> ValidateHeader del i0 (Warnings s) = (None, w1)
       \<and> ReadNativeImageData sys i0 = Inr i1
       \<and> ValidateImage del i1 w1 = (None, w2) \<longrightarrow>
         LoadImageNonInteractive sys fname del s =
           (fst (UpdateApplicationWithImage del i1 (Application s)),
            s\<lparr>Calls := Calls s @
                  [Call_FindRegistryAssociatedWithFile fname,
                   Call_ReadNativeImageHeader fname (Folder sys r0 ''Files.Grey''),
                   Call_ValidateHeader (Warnings s),
                   Call_ReadNativeImageData,
                   Call_ValidateImage w1,
                   Call_UpdateApplicationWithImage],
              Warnings := w2,
              Application := snd (UpdateApplicationWithImage del i1 (Application s))\<rparr>))
   \<and> (FindRegistryAssociatedWithFile sys fname = Inl e \<longrightarrow>
         LoadImageNonInteractive sys fname del s =
           (Some e,
            s\<lparr>Calls := Calls s @
                  [Call_FindRegistryAssociatedWithFile fname]\<rparr>))
   \<and> (FindRegistryAssociatedWithFile sys fname = Inr r0
       \<and> ReadNativeImageHeader sys fname (Folder sys r0 ''Files.Grey'') = Inl e \<longrightarrow>
         LoadImageNonInteractive sys fname del s =
           (Some e,
            s\<lparr>Calls := Calls s @
                  [Call_FindRegistryAssociatedWithFile fname,
                   Call_ReadNativeImageHeader fname (Folder sys r0 ''Files.Grey'')]\<rparr>))
   \<and> (FindRegistryAssociatedWithFile sys fname = Inr r0
       \<and> ReadNativeImageHeader sys fname (Folder sys r0 ''Files.Grey'') = Inr i0
       \<and> ValidateHeader del i0 (Warnings s) = (Some e, w1) \<longrightarrow>
         LoadImageNonInteractive sys fname del s =
           (Some e,
            s\<lparr>Calls := Calls s @
                  [Call_FindRegistryAssociatedWithFile fname,
                   Call_ReadNativeImageHeader fname (Folder sys r0 ''Files.Grey''),
                   Call_ValidateHeader (Warnings s)],
              Warnings := w1\<rparr>))
   \<and> (FindRegistryAssociatedWithFile sys fname = Inr r0
       \<and> ReadNativeImageHeader sys fname (Folder sys r0 ''Files.Grey'') = Inr i0
       \<and> ValidateHeader del i0 (Warnings s) = (None, w1)
       \<and> ReadNativeImageData sys i0 = Inl e \<longrightarrow>
         LoadImageNonInteractive sys fname del s =
           (Some e,
            s\<lparr>Calls := Calls s @
                  [Call_FindRegistryAssociatedWithFile fname,
                   Call_ReadNativeImageHeader fname (Folder sys r0 ''Files.Grey''),
                   Call_ValidateHeader (Warnings s),
                   Call_ReadNativeImageData],
              Warnings := w1\<rparr>))
   \<and> (FindRegistryAssociatedWithFile sys fname = Inr r0
       \<and> ReadNativeImageHeader sys fname (Folder sys r0 ''Files.Grey'') = Inr i0
       \<and> ValidateHeader del i0 (Warnings s) = (None, w1)
       \<and> ReadNativeImageData sys i0 = Inr i1
       \<and> ValidateImage del i1 w1 = (Some e, w2) \<longrightarrow>
         LoadImageNonInteractive sys fname del s =
           (Some e,
            s\<lparr>Calls := Calls s @
                  [Call_FindRegistryAssociatedWithFile fname,
                   Call_ReadNativeImageHeader fname (Folder sys r0 ''Files.Grey''),
                   Call_ValidateHeader (Warnings s),
                   Call_ReadNativeImageData,
                   Call_ValidateImage w1],
              Warnings := w2\<rparr>))
   \<and> (Call_UpdateApplicationWithImage
         \<notin> set (calls_since (Calls s) (Calls (snd (LoadImageNonInteractive sys fname del s)))) \<longrightarrow>
         Application (snd (LoadImageNonInteractive sys fname del s)) = Application s)
   \<and> (Call_ValidateHeader (Warnings s)
         \<notin> set (calls_since (Calls s) (Calls (snd (LoadImageNonInteractive sys fname del s)))) \<longrightarrow>
         Warnings (snd (LoadImageNonInteractive sys fname del s)) = Warnings s)"
  by (auto simp add: LoadImageNonInteractive_def called_def calls_since_def Let_def
      split: sum.splits prod.splits option.splits)

theorem LoadImageNonInteractive_validates_before_update_witness:
  "LoadImageNonInteractive example_image_io ''brain.nii'' example_delegate
     \<lparr>Calls = [], Warnings = [''earlier warning''], Application = 40\<rparr> =
   (None,
    \<lparr>Calls =
       [Call_FindRegistryAssociatedWithFile ''brain.nii'',
        Call_ReadNativeImageHeader ''brain.nii'' [''Files.Grey'', ''brain.nii''],
        Call_ValidateHeader [''earlier warning''],
        Call_ReadNativeImageData,
        Call_ValidateImage [''earlier warning'', ''header warning''],
        Call_UpdateApplicationWithImage],
     Warnings = [''earlier warning'', ''header warning'', ''image warning''],
     Application = 42\<rparr>)"
  using LoadImageNonInteractive_validates_before_update
    [where sys = example_image_io and fname = "''brain.nii''" and del = example_delegate
       and s = "\<lparr>Calls = [], Warnings = [''earlier warning''], Application = 40\<rparr>"
       and ?r0.0 = "[''brain.nii'']" and ?i0.0 = 1
       and ?w1.0 = "[''earlier warning'', ''header warning'']" and ?i1.0 = 2
       and ?w2.0 = "[''earlier warning'', ''header warning'', ''image warning'']"]
  by (simp add: example_image_io_def example_delegate_def)

text \<open>When the header cannot be read, no validation runs and the application is not touched.\<close>

lemma LoadImageNonInteractive_failed_header_example:
  "LoadImageNonInteractive example_image_io [] example_delegate
     \<lparr>Calls = [], Warnings = [], Application = 40\<rparr> =
   (Some (IRISException ''no file name''),
    \<lparr>Calls =
       [Call_FindRegistryAssociatedWithFile [],
        Call_ReadNativeImageHeader [] [''Files.Grey'', []]],
     Warnings = [],
     Application = 40\<rparr>)"
  by (simp add: LoadImageNonInteractive_def called_def example_image_io_def Let_def)

text \<open>
  When header validation throws, the caller's list holds the warning it left, the data
  is not read and the application is not touched.
\<close>

lemma LoadImageNonInteractive_failed_validation_example:
  "LoadImageNonInteractive example_image_io ''brain.nii'' example_strict_delegate
     \<lparr>Calls = [], Warnings = [], Application = 40\<rparr> =
   (Some (IRISException ''size mismatch''),
    \<lparr>Calls =
       [Call_FindRegistryAssociatedWithFile ''brain.nii'',
        Call_ReadNativeImageHeader ''brain.nii'' [''Files.Grey'', ''brain.nii''],
        Call_ValidateHeader []],
     Warnings = [''header warning''],
     Application = 40\<rparr>)"
  by (simp add: LoadImageNonInteractive_def called_def example_image_io_def
      example_strict_delegate_def Let_def)

section \<open>Properties of PolygonDrawingInteractionMode\<close>

text \<open>
  C2. A press event makes a call only when its button is the left one, and then the call
  is \<^verbatim>\<open>ProcessPushEvent\<close>; a release event likewise, with \<^verbatim>\<open>ProcessReleaseEvent\<close>; a move
  event calls \<^verbatim>\<open>ProcessDragEvent\<close> when the left button is down and
  \<^verbatim>\<open>ProcessMouseMoveEvent\<close> otherwise. The polygon model is left as the method invoked
  left it, and untouched when none was invoked. That the event is accepted is read as:
  the handler calls \<^verbatim>\<open>accept()\<close> on it. It does so exactly when it invoked a method of
  the model and the method returned true; the flag of the event is then set, and
  otherwise stays as it arrived, since no handler clears it. Nothing else of the widget
  or of the event changes.
\<close>

theorem mouse_events_dispatch:
  "Log (snd (mousePressEvent pdm ev w)) =
     Log w @
       (if button ev = LeftButton then
          Call_ProcessPushEvent (component (m_XSlice w) 0) (component (m_XSlice w) 1)
            (testFlag (modifiers ev) ShiftModifier)
          # (if fst (ProcessPushEvent pdm (component (m_XSlice w) 0) (component (m_XSlice w) 1)
                      (testFlag (modifiers ev) ShiftModifier) (m_Model w))
             then [Call_accept] else [])
        else [])
   \<and> (Call_accept \<in> set (calls_since (Log w) (Log (snd (mousePressEvent pdm ev w))))) =
       (button ev = LeftButton
        \<and> fst (ProcessPushEvent pdm (component (m_XSlice w) 0) (component (m_XSlice w) 1)
                 (testFlag (modifiers ev) ShiftModifier) (m_Model w)))
   \<and> accepted (fst (mousePressEvent pdm ev w)) =
       (accepted ev
        \<or> button ev = LeftButton
          \<and> fst (ProcessPushEvent pdm (component (m_XSlice w) 0) (component (m_XSlice w) 1)
                   (testFlag (modifiers ev) ShiftModifier) (m_Model w)))
   \<and> Log (snd (mouseReleaseEvent pdm ev w)) =
     Log w @
       (if button ev = LeftButton then
          Call_ProcessReleaseEvent (component (m_XSlice w) 0) (component (m_XSlice w) 1)
          # (if fst (ProcessReleaseEvent pdm (component (m_XSlice w) 0)
                      (component (m_XSlice w) 1) (m_Model w))
             then [Call_accept] else [])
        else [])
   \<and> (Call_accept \<in> set (calls_since (Log w) (Log (snd (mouseReleaseEvent pdm ev w))))) =
       (button ev = LeftButton
        \<and> fst (ProcessReleaseEvent pdm (component (m_XSlice w) 0) (component (m_XSlice w) 1)
                 (m_Model w)))
   \<and> accepted (fst (mouseReleaseEvent pdm ev w)) =
       (accepted ev
        \<or> button ev = LeftButton
          \<and> fst (ProcessReleaseEvent pdm (component (m_XSlice w) 0) (component (m_XSlice w) 1)
                   (m_Model w)))
   \<and> Log (snd (mouseMoveEvent pdm ev w)) =
     Log w @
       (if m_LeftDown w then
          Call_ProcessDragEvent (component (m_XSlice w) 0) (component (m_XSlice w) 1)
          # (if fst (ProcessDragEvent pdm (component (m_XSlice w) 0)
                      (component (m_XSlice w) 1) (m_Model w))
             then [Call_accept] else [])
        else
          Call_ProcessMouseMoveEvent (component (m_XSlice w) 0) (component (m_XSlice w) 1)
          # (if fst (ProcessMouseMoveEvent pdm (component (m_XSlice w) 0)
                      (component (m_XSlice w) 1) (m_Model w))
             then [Call_accept, Call_update] else []))
   \<and> (Call_accept \<in> set (calls_since (Log w) (Log (snd (mouseMoveEvent pdm ev w))))) =
       (if m_LeftDown w
        then fst (ProcessDragEvent pdm (component (m_XSlice w) 0) (component (m_XSlice w) 1)
                    (m_Model w))
        else fst (ProcessMouseMoveEvent pdm (component (m_XSlice w) 0)
                    (component (m_XSlice w) 1) (m_Model w)))
   \<and> accepted (fst (mouseMoveEvent pdm ev w)) =
       (accepted ev
        \<or> (if m_LeftDown w
            then fst (ProcessDragEvent pdm (component (m_XSlice w) 0)
                        (component (m_XSlice w) 1) (m_Model w))
            else fst (ProcessMouseMoveEvent pdm (component (m_XSlice w) 0)
                        (component (m_XSlice w) 1) (m_Model w))))
   \<and> m_Model (snd (mousePressEvent pdm ev w)) =
       (if button ev = LeftButton
        then snd (ProcessPushEvent pdm (component (m_XSlice w) 0) (component (m_XSlice w) 1)
                    (testFlag (modifiers ev) ShiftModifier) (m_Model w))
        else m_Model w)
   \<and> (snd (mousePressEvent pdm ev w))\<lparr>Log := Log w, m_Model := m_Model w\<rparr> = w
   \<and> (fst (mousePressEvent pdm ev w))\<lparr>accepted := accepted ev\<rparr> = ev
   \<and> m_Model (snd (mouseReleaseEvent pdm ev w)) =
       (if button ev = LeftButton
        then snd (ProcessReleaseEvent pdm (component (m_XSlice w) 0) (component (m_XSlice w) 1) (m_Model w))
        else m_Model w)
   \<and> (snd (mouseReleaseEvent pdm ev w))\<lparr>Log := Log w, m_Model := m_Model w\<rparr> = w
   \<and> (fst (mouseReleaseEvent pdm ev w))\<lparr>accepted := accepted ev\<rparr> = ev
   \<and> m_Model (snd (mouseMoveEvent pdm ev w)) =
       (if m_LeftDown w
        then snd (ProcessDragEvent pdm (component (m_XSlice w) 0) (component (m_XSlice w) 1) (m_Model w))
        else snd (ProcessMouseMoveEvent pdm (component (m_XSlice w) 0) (component (m_XSlice w) 1) (m_Model w)))
   \<and> (snd (mouseMoveEvent pdm ev w))\<lparr>Log := Log w, m_Model := m_Model w\<rparr> = w
   \<and> (fst (mouseMoveEvent pdm ev w))\<lparr>accepted := accepted ev\<rparr> = ev"
  by (simp add: mousePressEvent_def mouseReleaseEvent_def mouseMoveEvent_def calls_since_def
      emit_def accept_def Let_def split: prod.split)

text \<open>A left press with Shift held, a right press, and a move with the button up.\<close>

lemma mousePressEvent_left_example:
  "mousePressEvent example_polygon_model
     \<lparr>button = LeftButton, modifiers = [ShiftModifier], accepted = False\<rparr> example_widget =
   (\<lparr>button = LeftButton, modifiers = [ShiftModifier], accepted = True\<rparr>,
    example_widget\<lparr>Log := [Call_ProcessPushEvent 10 20 True, Call_accept], m_Model := 3\<rparr>)"
  by (simp add: mousePressEvent_def example_polygon_model_def example_widget_def emit_def
      accept_def testFlag_def)

lemma mousePressEvent_right_example:
  "mousePressEvent example_polygon_model
     \<lparr>button = RightButton, modifiers = [], accepted = False\<rparr> example_widget =
   (\<lparr>button = RightButton, modifiers = [], accepted = False\<rparr>, example_widget)"
  by (simp add: mousePressEvent_def)

lemma mouseMoveEvent_example:
  "mouseMoveEvent example_polygon_model
     \<lparr>button = NoButton, modifiers = [], accepted = False\<rparr> example_widget =
   (\<lparr>button = NoButton, modifiers = [], accepted = False\<rparr>,
    example_widget\<lparr>Log := [Call_ProcessMouseMoveEvent 10 20]\<rparr>)"
  by (simp add: mouseMoveEvent_def example_polygon_model_def example_widget_def emit_def)

text \<open>
  C10. A context menu event emits \<^verbatim>\<open>contextMenuRequested\<close> exactly when the option of
  the global state is enabled or the Control modifier is held or the Meta modifier is
  held. Otherwise it emits nothing, and in both cases it changes nothing else.
\<close>

theorem contextMenuEvent_signal:
  "Log (contextMenuEvent ev w) =
     Log w @
       (if GetPolygonDrawingContextMenu
             (IRISApplication_GetGlobalState (GetDriver (m_ParentModel w)))
           \<or> testFlag (menu_modifiers ev) ControlModifier
           \<or> testFlag (menu_modifiers ev) MetaModifier
        then [Emit_contextMenuRequested] else [])
   \<and> (Emit_contextMenuRequested \<in> set (calls_since (Log w) (Log (contextMenuEvent ev w)))) =
       (PolygonDrawingContextMenu (GlobalState (Driver (m_ParentModel w)))
        \<or> ControlModifier \<in> set (menu_modifiers ev)
        \<or> MetaModifier \<in> set (menu_modifiers ev))
   \<and> (contextMenuEvent ev w)\<lparr>Log := Log w\<rparr> = w"
  by (simp add: contextMenuEvent_def calls_since_def emit_def testFlag_def
      GetPolygonDrawingContextMenu_def IRISApplication_GetGlobalState_def GetDriver_def)

text \<open>With the option off, the signal needs a modifier.\<close>

lemma contextMenuEvent_example:
  "contextMenuEvent \<lparr>menu_modifiers = []\<rparr> example_widget = example_widget
   \<and> contextMenuEvent \<lparr>menu_modifiers = [MetaModifier]\<rparr> example_widget =
       example_widget\<lparr>Log := [Emit_contextMenuRequested]\<rparr>"
  by (simp add: contextMenuEvent_def example_widget_def example_driver_def emit_def
      testFlag_def GetPolygonDrawingContextMenu_def IRISApplication_GetGlobalState_def
      GetDriver_def)

text \<open>
  C3. \<^verbatim>\<open>onAcceptPolygon\<close> makes the GL context current, passes an empty warning list to
  \<^verbatim>\<open>AcceptPolygon\<close>, and shows the warning dialog exactly when the list is not empty
  after \<^verbatim>\<open>AcceptPolygon\<close> returns; the dialog is shown with that list.
\<close>

theorem onAcceptPolygon_warnings:
  "Log (onAcceptPolygon pdm w) =
     Log w @ [Call_makeCurrent, Call_AcceptPolygon []] @
       (if fst (AcceptPolygon pdm [] (m_Model w)) \<noteq> []
        then [Call_QtWarningDialog_show (fst (AcceptPolygon pdm [] (m_Model w)))] else [])
   \<and> (Call_QtWarningDialog_show ws \<in> set (calls_since (Log w) (Log (onAcceptPolygon pdm w)))) =
       (ws = fst (AcceptPolygon pdm [] (m_Model w)) \<and> ws \<noteq> [])
   \<and> m_Model (onAcceptPolygon pdm w) = snd (AcceptPolygon pdm [] (m_Model w))"
  by (auto simp add: onAcceptPolygon_def calls_since_def emit_def Let_def split: prod.split)

text \<open>A polygon of two vertices brings up the dialog, one of five does not.\<close>

lemma onAcceptPolygon_example:
  "onAcceptPolygon example_polygon_model example_widget =
     example_widget
       \<lparr>Log := [Call_makeCurrent, Call_AcceptPolygon [],
                Call_QtWarningDialog_show [''polygon has fewer than three vertices'']],
        m_Model := 0\<rparr>
   \<and> onAcceptPolygon example_polygon_model (example_widget\<lparr>m_Model := 5\<rparr>) =
     example_widget\<lparr>Log := [Call_makeCurrent, Call_AcceptPolygon []], m_Model := 0\<rparr>"
  by (simp add: onAcceptPolygon_def example_polygon_model_def example_widget_def emit_def)

end
